theory Spec2Isabelle
  imports Main "HOL-Library.Word"
begin

unbundle bit_operations_syntax

section \<open>Data model\<close>

text \<open>
  The program is the single request handler \<open>fetch(request, env)\<close> of \<open>src/index.js\<close>.
  JavaScript strings are sequences of 16-bit code units. The credential and the secret
  are modelled as such (\<open>jsstring\<close>), because the handler compares both their
  \<open>.length\<close> (code units) and the length of their UTF-8 encoding (bytes). The URL path,
  the method, header names and the fixed texts are ASCII in every request the handler can
  receive (the URL parser percent-encodes everything else), so they are HOL strings.
\<close>

type_synonym jsstring = "16 word list"
type_synonym bytes = "8 word list"

datatype js_error = TypeError

subsection \<open>String methods\<close>

definition startsWith :: "string \<Rightarrow> string \<Rightarrow> bool" where
  "startsWith s p = (take (length p) s = p)"

definition endsWith :: "string \<Rightarrow> string \<Rightarrow> bool" where
  "endsWith s p = (length p \<le> length s \<and> drop (length s - length p) s = p)"

text \<open>\<open>s.slice(n)\<close> for a non-negative \<open>n\<close>: the code units from index \<open>n\<close> on.\<close>

definition slice :: "string \<Rightarrow> nat \<Rightarrow> string" where
  "slice s n = drop n s"

text \<open>\<open>xs.join(sep)\<close> on an array of strings.\<close>

fun join :: "string list \<Rightarrow> string \<Rightarrow> string" where
  "join [] sep = []"
| "join [x] sep = x"
| "join (x # y # ys) sep = x @ sep @ join (y # ys) sep"

subsection \<open>TextEncoder\<close>

text \<open>
  \<open>new TextEncoder().encode(s)\<close> is the UTF-8 encoding of \<open>s\<close>, read as UTF-16: a high
  surrogate followed by a low surrogate is one code point of four bytes, any other
  surrogate is replaced by U+FFFD (\<open>EF BF BD\<close>).
\<close>

definition is_high_surrogate :: "16 word \<Rightarrow> bool" where
  "is_high_surrogate u = (0xD800 \<le> u \<and> u \<le> 0xDBFF)"

definition is_low_surrogate :: "16 word \<Rightarrow> bool" where
  "is_low_surrogate u = (0xDC00 \<le> u \<and> u \<le> 0xDFFF)"

definition code_point :: "16 word \<Rightarrow> 16 word \<Rightarrow> 32 word" where
  "code_point hi lo = 0x10000 + push_bit 10 (ucast (hi - 0xD800)) + ucast (lo - 0xDC00)"

definition utf8_1 :: "16 word \<Rightarrow> bytes" where
  "utf8_1 u = [ucast u]"

definition utf8_2 :: "16 word \<Rightarrow> bytes" where
  "utf8_2 u = [0xC0 OR ucast (drop_bit 6 u), 0x80 OR ucast (u AND 0x3F)]"

definition utf8_3 :: "16 word \<Rightarrow> bytes" where
  "utf8_3 u = [0xE0 OR ucast (drop_bit 12 u), 0x80 OR ucast (drop_bit 6 u AND 0x3F),
               0x80 OR ucast (u AND 0x3F)]"

definition utf8_4 :: "32 word \<Rightarrow> bytes" where
  "utf8_4 c = [0xF0 OR ucast (drop_bit 18 c), 0x80 OR ucast (drop_bit 12 c AND 0x3F),
               0x80 OR ucast (drop_bit 6 c AND 0x3F), 0x80 OR ucast (c AND 0x3F)]"

definition replacement :: bytes where
  "replacement = [0xEF, 0xBF, 0xBD]"

fun encode :: "jsstring \<Rightarrow> bytes" where
  "encode [] = []"
| "encode (u # us) =
     (if u < 0x80 then utf8_1 u @ encode us
      else if u < 0x800 then utf8_2 u @ encode us
      else if is_high_surrogate u then
        (case us of
           [] \<Rightarrow> replacement
         | v # vs \<Rightarrow>
             if is_low_surrogate v then utf8_4 (code_point u v) @ encode vs
             else replacement @ encode us)
      else if is_low_surrogate u then replacement @ encode us
      else utf8_3 u @ encode us)"

text \<open>
  The number of UTF-16 code units that a sequence of UTF-8 bytes stands for, read off
  the lead bytes: one unit for a sequence of one, two or three bytes, two units (a
  surrogate pair) for a sequence of four. It serves the proofs only.
\<close>

fun units :: "bytes \<Rightarrow> nat" where
  "units [] = 0"
| "units (b # bs) =
     (if b < 0x80 then Suc (units bs)
      else if b < 0xE0 then Suc (units (drop 1 bs))
      else if b < 0xF0 then Suc (units (drop 2 bs))
      else 2 + units (drop 3 bs))"

subsection \<open>The authentication check (lines 33 to 46)\<close>

text \<open>
  \<open>crypto.subtle.timingSafeEqual(a, b)\<close> of the runtime: it throws on buffers of
  different length and otherwise says whether the two buffers hold the same bytes.
\<close>

definition timingSafeEqual :: "bytes \<Rightarrow> bytes \<Rightarrow> js_error + bool" where
  "timingSafeEqual a b = (if length a \<noteq> length b then Inl TypeError else Inr (a = b))"

text \<open>
  The operations the check performs, in program order: the comparison of the two
  \<open>.length\<close> values (line 38), the two calls of the encoder (lines 40 and 41), the
  comparison of the two \<open>byteLength\<close> values (line 43) and the call of
  \<open>timingSafeEqual\<close> (line 44).
\<close>

datatype auth_step = CompareLength | Encode | CompareByteLength | CallTimingSafeEqual

text \<open>
  The value of \<open>isAuthenticated\<close> after line 46, with the operations performed.
  \<open>isAuthenticated\<close> starts as \<open>false\<close> and is assigned only at line 44.
\<close>

definition authenticate :: "jsstring \<Rightarrow> jsstring \<Rightarrow> js_error + bool \<times> auth_step list" where
  "authenticate authToken secret =
     (if length authToken = length secret then
        let a = encode authToken; b = encode secret in
        if length a = length b then
          (case timingSafeEqual a b of
             Inl e \<Rightarrow> Inl e
           | Inr r \<Rightarrow> Inr (r, [CompareLength, Encode, Encode, CompareByteLength, CallTimingSafeEqual]))
        else Inr (False, [CompareLength, Encode, Encode, CompareByteLength])
      else Inr (False, [CompareLength]))"

subsection \<open>Numbers as text\<close>

text \<open>
  \<open>'public, max-age='.concat(n)\<close> converts the number \<open>n\<close> to a string. For an integer
  below \<open>10^21\<close> in absolute value that is its decimal numeral, with a leading minus sign
  when it is negative.
\<close>

definition digit_char :: "nat \<Rightarrow> char" where
  "digit_char d = char_of (48 + d)"

fun digits :: "nat \<Rightarrow> string" where
  "digits n = (if n < 10 then [digit_char n] else digits (n div 10) @ [digit_char (n mod 10)])"

declare digits.simps [simp del]

definition number_to_string :: "int \<Rightarrow> string" where
  "number_to_string n = (if n < 0 then CHR ''-'' # digits (nat (- n)) else digits (nat n))"

subsection \<open>Headers\<close>

text \<open>
  A \<open>Headers\<close> object maps header names to values and ignores the case of names: it
  keeps them in lower case, and \<open>get\<close> and \<open>set\<close> convert the name they are given.
  \<open>get\<close> of an absent name is \<open>null\<close>, here \<open>None\<close>.
\<close>

type_synonym 'v headers = "string \<rightharpoonup> 'v"

definition to_lower :: "char \<Rightarrow> char" where
  "to_lower c = (let n = (of_char c :: nat) in if 65 \<le> n \<and> n \<le> 90 then char_of (n + 32) else c)"

definition headers_get :: "'v headers \<Rightarrow> string \<Rightarrow> 'v option" where
  "headers_get h name = h (map to_lower name)"

definition headers_set :: "'v headers \<Rightarrow> string \<Rightarrow> 'v \<Rightarrow> 'v headers" where
  "headers_set h name v = h(map to_lower name \<mapsto> v)"

subsection \<open>The blob store\<close>

text \<open>
  Modelled from the spec: the blob store bound to \<open>env.LIVETIMING_BUCKET\<close> is an external
  collaborator with the operations \<open>get(key) -> object|null\<close>, \<open>put(key, bytes, metadata)\<close>
  and \<open>delete(key)\<close>; it maps a key string to bytes, HTTP metadata and an entity tag
  derived from the content. \<open>put\<close> overwrites, \<open>delete\<close> of an absent key is not an
  error. Failures of the store are outside the model.
\<close>

record http_metadata =
  contentType :: "string option"
  contentLanguage :: "string option"
  contentDisposition :: "string option"
  contentEncoding :: "string option"
  cacheControl :: "string option"
  cacheExpiry :: "string option"

record r2object =
  object_body :: bytes
  httpMetadata :: http_metadata
  httpEtag :: string

record bucket =
  objects :: "string \<rightharpoonup> r2object"
  etag_of :: "bytes \<Rightarrow> string"

definition bucket_get :: "bucket \<Rightarrow> string \<Rightarrow> r2object option" where
  "bucket_get b key = objects b key"

definition bucket_put :: "bucket \<Rightarrow> string \<Rightarrow> bytes \<Rightarrow> http_metadata \<Rightarrow> bucket" where
  "bucket_put b key value meta =
     b\<lparr>objects := (objects b)(key \<mapsto>
          \<lparr>object_body = value, httpMetadata = meta, httpEtag = etag_of b value\<rparr>)\<rparr>"

definition bucket_delete :: "bucket \<Rightarrow> string \<Rightarrow> bucket" where
  "bucket_delete b key = b\<lparr>objects := (objects b)(key := None)\<rparr>"

text \<open>
  \<open>object.writeHttpMetadata(headers)\<close>: every field of the object's HTTP metadata that
  is defined is written to the header of its name.
\<close>

definition write_field :: "string \<Rightarrow> string option \<Rightarrow> string headers \<Rightarrow> string headers" where
  "write_field name field h = (case field of None \<Rightarrow> h | Some v \<Rightarrow> headers_set h name v)"

definition writeHttpMetadata :: "r2object \<Rightarrow> string headers \<Rightarrow> string headers" where
  "writeHttpMetadata object h =
     (let m = httpMetadata object in
      write_field ''expires'' (cacheExpiry m)
       (write_field ''cache-control'' (cacheControl m)
        (write_field ''content-encoding'' (contentEncoding m)
         (write_field ''content-disposition'' (contentDisposition m)
          (write_field ''content-language'' (contentLanguage m)
           (write_field ''content-type'' (contentType m) h))))))"

text \<open>The calls the handler makes on the store, in program order.\<close>

datatype bucket_call =
  Get string
  | Put string bytes http_metadata
  | Delete string

subsection \<open>Request, configuration, response\<close>

text \<open>
  \<open>pathname\<close> is \<open>new URL(request.url).pathname\<close>, \<open>http_method\<close> is \<open>request.method\<close>.
  \<open>body\<close> holds the bytes of the request's body stream (none for a request without body).
\<close>

record request =
  pathname :: string
  http_method :: string
  headers :: "jsstring headers"
  body :: bytes

text \<open>An option of the configuration that is not set reads as \<open>undefined\<close>, here \<open>None\<close>.\<close>

record env =
  MAX_CACHE_AGE :: "int option"
  AUTH_KEY_SECRET :: "jsstring option"
  LIVETIMING_BUCKET :: bucket

text \<open>A response body is made from a string or from the byte stream of a stored object.\<close>

datatype response_body = Text string | Stream bytes

record response =
  status :: nat
  response_headers :: "string headers"
  response_body :: response_body

text \<open>
  What one call of the handler leaves behind: the response, the store after the call,
  and the calls made on the store.
\<close>

record outcome =
  returned :: response
  store :: bucket
  calls :: "bucket_call list"

text \<open>
  \<open>new Response(body, {status, headers})\<close>. The handler gives no status where the model
  passes 200, the default. A body made from a string brings the header
  \<open>content-type: text/plain;charset=UTF-8\<close> unless the given headers have a content type.
  The option \<open>cacheEverything\<close> of line 99 is not an option of \<open>Response\<close> and has no effect.
\<close>

definition Response :: "response_body \<Rightarrow> nat \<Rightarrow> string headers \<Rightarrow> response" where
  "Response b st h =
     \<lparr>status = st,
      response_headers =
        (case b of
           Text t \<Rightarrow>
             (case headers_get h ''content-type'' of
                None \<Rightarrow> headers_set h ''content-type'' ''text/plain;charset=UTF-8''
              | Some v \<Rightarrow> h)
         | Stream bs \<Rightarrow> h),
      response_body = b\<rparr>"

section \<open>The request handler\<close>

definition supportedMethods :: "string list" where
  "supportedMethods = [''GET'', ''PUT'', ''DELETE'']"

definition authenticatedMethods :: "string list" where
  "authenticatedMethods = [''PUT'', ''DELETE'']"

definition PRESHARED_AUTH_HEADER_KEY :: string where
  "PRESHARED_AUTH_HEADER_KEY = ''X-FASTF1-LIVETIMING-MIRROR-AUTH''"

text \<open>
  Line 24, \<open>env.MAX_CACHE_AGE || 3600\<close>: the right operand is taken when the left one is
  falsy, which for a number is \<open>undefined\<close> and \<open>0\<close>.
\<close>

definition cache_max_age :: "env \<Rightarrow> int" where
  "cache_max_age e =
     (case MAX_CACHE_AGE e of None \<Rightarrow> 3600 | Some n \<Rightarrow> if n = 0 then 3600 else n)"

text \<open>
  Line 35, \<open>request.headers.get(PRESHARED_AUTH_HEADER_KEY) || ""\<close>: \<open>null\<close> and the empty
  string are falsy, both give the empty string.
\<close>

definition auth_token :: "request \<Rightarrow> jsstring" where
  "auth_token r =
     (case headers_get (headers r) PRESHARED_AUTH_HEADER_KEY of
        None \<Rightarrow> []
      | Some v \<Rightarrow> if v = [] then [] else v)"

text \<open>Lines 50 to 55 and 106 to 111.\<close>

definition method_not_allowed :: response where
  "method_not_allowed =
     Response (Text ''Method Not Allowed'') 405
       (headers_set Map.empty ''Allow'' (join supportedMethods '', ''))"

text \<open>Lines 67 to 81.\<close>

definition content_type_value :: "string \<Rightarrow> string" where
  "content_type_value key =
     (if endsWith key ''.jsonStream'' then ''application/octet-stream''
      else if endsWith key ''.json'' then ''application/json''
      else [])"

definition put_metadata :: "string \<Rightarrow> http_metadata" where
  "put_metadata key =
     \<lparr>contentType = Some (content_type_value key), contentLanguage = None,
      contentDisposition = None, contentEncoding = None, cacheControl = None,
      cacheExpiry = None\<rparr>"

definition handle_put :: "request \<Rightarrow> env \<Rightarrow> string \<Rightarrow> outcome" where
  "handle_put r e key =
     \<lparr>returned = Response (Text (''Put '' @ key @ '' successfully!'')) 200 Map.empty,
      store = bucket_put (LIVETIMING_BUCKET e) key (body r) (put_metadata key),
      calls = [Put key (body r) (put_metadata key)]\<rparr>"

text \<open>Lines 82 to 100.\<close>

definition object_headers :: "r2object \<Rightarrow> int \<Rightarrow> string headers" where
  "object_headers object max_age =
     headers_set
       (headers_set (writeHttpMetadata object Map.empty) ''etag'' (httpEtag object))
       ''Cache-Control'' (''public, max-age='' @ number_to_string max_age)"

definition handle_get :: "env \<Rightarrow> string \<Rightarrow> outcome" where
  "handle_get e key =
     (if key = [] then
        \<lparr>returned = Response (Text ''Status OK'') 200 Map.empty,
         store = LIVETIMING_BUCKET e, calls = []\<rparr>
      else
        (case bucket_get (LIVETIMING_BUCKET e) key of
           None \<Rightarrow>
             \<lparr>returned = Response (Text ''Object Not Found'') 404 Map.empty,
              store = LIVETIMING_BUCKET e, calls = [Get key]\<rparr>
         | Some object \<Rightarrow>
             \<lparr>returned =
                Response (Stream (object_body object)) 200
                  (object_headers object (cache_max_age e)),
              store = LIVETIMING_BUCKET e, calls = [Get key]\<rparr>))"

text \<open>Lines 101 to 103.\<close>

definition handle_delete :: "env \<Rightarrow> string \<Rightarrow> outcome" where
  "handle_delete e key =
     \<lparr>returned = Response (Text ''Deleted!'') 200 Map.empty,
      store = bucket_delete (LIVETIMING_BUCKET e) key,
      calls = [Delete key]\<rparr>"

text \<open>
  The handler. Reading \<open>.length\<close> of an \<open>AUTH_KEY_SECRET\<close> that is \<open>undefined\<close> (line 38)
  throws a \<open>TypeError\<close>, which leaves the handler at once. The \<open>switch\<close> of line 66 is
  the chain of the last four branches, in its order.
\<close>

definition no_call :: "env \<Rightarrow> response \<Rightarrow> outcome" where
  "no_call e resp = \<lparr>returned = resp, store = LIVETIMING_BUCKET e, calls = []\<rparr>"

definition fetch :: "request \<Rightarrow> env \<Rightarrow> js_error + outcome" where
  "fetch r e =
     (if \<not> startsWith (pathname r) ''/static/'' then
        Inr (no_call e (Response (Text ''Bad Request'') 400 Map.empty))
      else
        let key = slice (pathname r) 8 in
        (case AUTH_KEY_SECRET e of
           None \<Rightarrow> Inl TypeError
         | Some secret \<Rightarrow>
             (case authenticate (auth_token r) secret of
                Inl err \<Rightarrow> Inl err
              | Inr (isAuthenticated, steps) \<Rightarrow>
                  if http_method r \<notin> set supportedMethods then Inr (no_call e method_not_allowed)
                  else if http_method r \<in> set authenticatedMethods \<and> \<not> isAuthenticated then
                    Inr (no_call e (Response (Text ''Unauthorized'') 401 Map.empty))
                  else if http_method r = ''PUT'' then Inr (handle_put r e key)
                  else if http_method r = ''GET'' then Inr (handle_get e key)
                  else if http_method r = ''DELETE'' then Inr (handle_delete e key)
                  else Inr (no_call e method_not_allowed))))"

text \<open>The value of the variable \<open>isAuthenticated\<close> that the handler tests at line 59.\<close>

definition isAuthenticated :: "jsstring \<Rightarrow> jsstring \<Rightarrow> bool" where
  "isAuthenticated authToken secret =
     (case authenticate authToken secret of Inl err \<Rightarrow> False | Inr (b, steps) \<Rightarrow> b)"

text \<open>
  The check as the specification words it, for comparison with \<open>authenticate\<close>: encode
  both strings, compare the encoded lengths first, and call the byte-wise comparison
  exactly when they are equal.
\<close>

definition authenticate_by_encoded_length ::
    "jsstring \<Rightarrow> jsstring \<Rightarrow> js_error + bool \<times> auth_step list" where
  "authenticate_by_encoded_length credential secret =
     (let a = encode credential; b = encode secret in
      if length a \<noteq> length b then Inr (False, [Encode, Encode, CompareByteLength])
      else
        (case timingSafeEqual a b of
           Inl e \<Rightarrow> Inl e
         | Inr r \<Rightarrow> Inr (r, [Encode, Encode, CompareByteLength, CallTimingSafeEqual])))"

text \<open>
  A sequence of requests served one after the other with nothing in between: each call
  of the handler sees the store as the call before left it. An error ends the sequence.
\<close>

fun serve :: "env \<Rightarrow> request list \<Rightarrow> js_error + response list" where
  "serve e [] = Inr []"
| "serve e (r # rs) =
     (case fetch r e of
        Inl err \<Rightarrow> Inl err
      | Inr out \<Rightarrow>
          (case serve (e\<lparr>LIVETIMING_BUCKET := store out\<rparr>) rs of
             Inl err \<Rightarrow> Inl err
           | Inr resps \<Rightarrow> Inr (returned out # resps)))"

subsection \<open>Concrete inputs\<close>

text \<open>
  An empty store, a store holding one object, a configuration with the secret \<open>ab\<close>
  and requests with a two-byte body, for evaluating the handler.
\<close>

definition sample_bucket :: bucket where
  "sample_bucket =
     \<lparr>objects = Map.empty,
      etag_of = (\<lambda>bs. if bs = [] then ''etag-empty'' else ''etag-content'')\<rparr>"

definition sample_object :: r2object where
  "sample_object =
     \<lparr>object_body = [0x7B, 0x7D], httpMetadata = put_metadata ''a.json'',
      httpEtag = ''etag-content''\<rparr>"

definition stocked_bucket :: bucket where
  "stocked_bucket = sample_bucket\<lparr>objects := [''a.json'' \<mapsto> sample_object]\<rparr>"

definition sample_env :: env where
  "sample_env =
     \<lparr>MAX_CACHE_AGE = None, AUTH_KEY_SECRET = Some [0x61, 0x62],
      LIVETIMING_BUCKET = sample_bucket\<rparr>"

definition sample_request :: "string \<Rightarrow> string \<Rightarrow> jsstring option \<Rightarrow> request" where
  "sample_request m p credential =
     \<lparr>pathname = p, http_method = m,
      headers = (case credential of None \<Rightarrow> Map.empty
                 | Some c \<Rightarrow> [''x-fastf1-livetiming-mirror-auth'' \<mapsto> c]),
      body = [0x7B, 0x7D]\<rparr>"

section \<open>Auxiliary facts\<close>

lemma authenticate_returns:
  "\<exists>steps. authenticate t s = Inr (length t = length s \<and> encode t = encode s, steps)"
  by (auto simp: authenticate_def timingSafeEqual_def Let_def)

lemma isAuthenticated_iff:
  "isAuthenticated t s = (length t = length s \<and> encode t = encode s)"
  using authenticate_returns [of t s] by (auto simp: isAuthenticated_def)

text \<open>
  Equal encodings come from strings of equal length: the encoding determines the number
  of code units. So the comparison of the two \<open>.length\<close> values at line 38 never changes
  the outcome, and the check succeeds exactly when the two encodings are equal.
\<close>

lemma or_192: "\<forall>n\<in>{..<32}. (192::nat) OR n = 192 + n"
  by code_simp

lemma or_224: "\<forall>n\<in>{..<16}. (224::nat) OR n = 224 + n"
  by code_simp

lemma lead1: "u < 0x80 \<Longrightarrow> (ucast (u :: 16 word) :: 8 word) < 0x80"
  by (simp add: word_less_nat_alt unsigned_ucast_eq take_bit_nat_eq_self)

lemma lead2_upper:
  assumes "(u :: 16 word) < 0x800"
  shows "(0xC0 OR ucast (drop_bit 6 u) :: 8 word) < 0xE0"
proof -
  have "unat u < 2048" using assms by (simp add: word_less_nat_alt)
  then have n: "drop_bit 6 (unat u) < 32" by (simp add: drop_bit_eq_div)
  then have "take_bit 8 (drop_bit 6 (unat u)) = drop_bit 6 (unat u)"
    by (simp add: take_bit_nat_eq_self)
  moreover have "(192::nat) OR drop_bit 6 (unat u) = 192 + drop_bit 6 (unat u)"
    using or_192 n by simp
  ultimately show ?thesis using n
    by (simp add: word_less_nat_alt unsigned_or_eq unsigned_ucast_eq unat_drop_bit_eq)
qed

lemma lead3_upper:
  "(0xE0 OR ucast (drop_bit 12 (u :: 16 word)) :: 8 word) < 0xF0"
proof -
  have "unat u < 65536" using unsigned_less [of u] by simp
  then have n: "drop_bit 12 (unat u) < 16" by (simp add: drop_bit_eq_div)
  then have "take_bit 8 (drop_bit 12 (unat u)) = drop_bit 12 (unat u)"
    by (simp add: take_bit_nat_eq_self)
  moreover have "(224::nat) OR drop_bit 12 (unat u) = 224 + drop_bit 12 (unat u)"
    using or_224 n by simp
  ultimately show ?thesis using n
    by (simp add: word_less_nat_alt unsigned_or_eq unsigned_ucast_eq unat_drop_bit_eq)
qed

lemma units_1: "b < 0x80 \<Longrightarrow> units (b # bs) = Suc (units bs)"
  by simp

lemma units_2: "0xC0 \<le> b \<Longrightarrow> b < 0xE0 \<Longrightarrow> units (b # c # bs) = Suc (units bs)"
  by (simp add: word_le_nat_alt word_less_nat_alt)

lemma units_3: "0xE0 \<le> b \<Longrightarrow> b < 0xF0 \<Longrightarrow> units (b # c # d # bs) = Suc (units bs)"
  by (simp add: word_le_nat_alt word_less_nat_alt)

lemma units_4: "0xF0 \<le> b \<Longrightarrow> units (b # c # d # e # bs) = Suc (Suc (units bs))"
  by (simp add: word_le_nat_alt word_less_nat_alt)

lemma units_utf8_1: "u < 0x80 \<Longrightarrow> units (utf8_1 u @ bs) = Suc (units bs)"
  unfolding utf8_1_def append_Cons append_Nil
  by (rule units_1) (rule lead1)

lemma units_utf8_2: "u < 0x800 \<Longrightarrow> units (utf8_2 u @ bs) = Suc (units bs)"
  unfolding utf8_2_def append_Cons append_Nil
  by (rule units_2) (rule le_word_or2, rule lead2_upper)

lemma units_utf8_3: "units (utf8_3 u @ bs) = Suc (units bs)"
  unfolding utf8_3_def append_Cons append_Nil
  by (rule units_3) (rule le_word_or2, rule lead3_upper)

lemma units_utf8_4: "units (utf8_4 c @ bs) = Suc (Suc (units bs))"
  unfolding utf8_4_def append_Cons append_Nil
  by (rule units_4) (rule le_word_or2)

lemma units_replacement: "units (replacement @ bs) = Suc (units bs)"
  unfolding replacement_def append_Cons append_Nil
  by (rule units_3) simp_all

lemma units_encode: "units (encode us) = length us"
proof (induction us rule: encode.induct)
  case 1
  show ?case by simp
next
  case (2 u us)
  show ?case
  proof (cases us)
    case Nil
    then show ?thesis
      using units_utf8_1 [of u "[]"] units_utf8_2 [of u "[]"] units_utf8_3 [of u "[]"]
        units_replacement [of "[]"]
      by simp
  next
    case (Cons v vs)
    with 2 show ?thesis
      by (simp add: units_utf8_1 units_utf8_2 units_utf8_3 units_utf8_4 units_replacement)
  qed
qed

lemma encode_determines_length: "encode a = encode b \<Longrightarrow> length a = length b"
  using units_encode [of a] units_encode [of b] by simp

lemma isAuthenticated_encode: "isAuthenticated t s = (encode t = encode s)"
  using encode_determines_length [of t s] by (auto simp: isAuthenticated_iff)

text \<open>
  The credentials that do not authenticate: those whose encoding has another length than
  the secret's, those whose encoding has the same length and other bytes, and the empty
  credential of a request without the header when the secret is not empty.
\<close>

lemma other_encoded_length_rejected:
  "length (encode t) \<noteq> length (encode s) \<Longrightarrow> \<not> isAuthenticated t s"
  by (auto simp: isAuthenticated_encode)

lemma other_bytes_rejected:
  "encode t \<noteq> encode s \<Longrightarrow> \<not> isAuthenticated t s"
  by (simp add: isAuthenticated_encode)

lemma empty_credential_rejected:
  "s \<noteq> [] \<Longrightarrow> \<not> isAuthenticated [] s"
  by (simp add: isAuthenticated_iff)

text \<open>With the secret configured, the handler never throws: it is this chain of cases.\<close>

lemma fetch_configured:
  assumes "startsWith (pathname r) ''/static/''" and "AUTH_KEY_SECRET e = Some secret"
  shows "fetch r e =
     Inr (if http_method r \<notin> set supportedMethods then no_call e method_not_allowed
          else if http_method r \<in> set authenticatedMethods \<and> \<not> isAuthenticated (auth_token r) secret
            then no_call e (Response (Text ''Unauthorized'') 401 Map.empty)
          else if http_method r = ''PUT'' then handle_put r e (slice (pathname r) 8)
          else if http_method r = ''GET'' then handle_get e (slice (pathname r) 8)
          else if http_method r = ''DELETE'' then handle_delete e (slice (pathname r) 8)
          else no_call e method_not_allowed)"
proof -
  obtain steps where "authenticate (auth_token r) secret =
      Inr (isAuthenticated (auth_token r) secret, steps)"
    using authenticate_returns [of "auth_token r" secret]
    by (auto simp: isAuthenticated_def)
  with assms show ?thesis
    by (auto simp: fetch_def Let_def)
qed

lemma auth_header_name:
  "map to_lower PRESHARED_AUTH_HEADER_KEY = ''x-fastf1-livetiming-mirror-auth''"
  by code_simp

lemma allow_value: "join supportedMethods '', '' = ''GET, PUT, DELETE''"
  by (simp add: supportedMethods_def)

lemma auth_token_present:
  "headers_get (headers r) PRESHARED_AUTH_HEADER_KEY = Some c \<Longrightarrow> auth_token r = c"
  by (simp add: auth_token_def)

lemma auth_token_absent:
  "headers_get (headers r) PRESHARED_AUTH_HEADER_KEY = None \<Longrightarrow> auth_token r = []"
  by (simp add: auth_token_def)

lemma status_Response: "status (Response b st h) = st"
  by (simp add: Response_def)

lemma body_Response: "response_body (Response b st h) = b"
  by (simp add: Response_def)

lemma sample_token:
  "auth_token (sample_request m p (Some c)) = c"
  by (simp add: auth_token_def sample_request_def headers_get_def auth_header_name)

lemma fetch_put_authenticated:
  assumes "startsWith (pathname r) ''/static/''" and "AUTH_KEY_SECRET e = Some secret"
    and "http_method r = ''PUT''" and "isAuthenticated (auth_token r) secret"
  shows "fetch r e = Inr (handle_put r e (slice (pathname r) 8))"
  using fetch_configured [OF assms(1) assms(2)] assms(3) assms(4)
  by (simp add: supportedMethods_def authenticatedMethods_def)

lemma fetch_delete_authenticated:
  assumes "startsWith (pathname r) ''/static/''" and "AUTH_KEY_SECRET e = Some secret"
    and "http_method r = ''DELETE''" and "isAuthenticated (auth_token r) secret"
  shows "fetch r e = Inr (handle_delete e (slice (pathname r) 8))"
  using fetch_configured [OF assms(1) assms(2)] assms(3) assms(4)
  by (simp add: supportedMethods_def authenticatedMethods_def)

lemma fetch_get:
  assumes "startsWith (pathname r) ''/static/''" and "AUTH_KEY_SECRET e = Some secret"
    and "http_method r = ''GET''"
  shows "fetch r e = Inr (handle_get e (slice (pathname r) 8))"
  using fetch_configured [OF assms(1) assms(2)] assms(3)
  by (simp add: supportedMethods_def authenticatedMethods_def)

lemma path_key:
  "pathname r = ''/static/'' @ key \<Longrightarrow>
   startsWith (pathname r) ''/static/'' \<and> slice (pathname r) 8 = key"
  by (simp add: startsWith_def slice_def)

lemma isAuthenticated_same: "isAuthenticated s s"
  by (simp add: isAuthenticated_iff)

lemma lower_allow: "map to_lower ''Allow'' = ''allow''"
  by code_simp

lemma lower_content_type: "map to_lower ''content-type'' = ''content-type''"
  by code_simp

lemma lower_etag: "map to_lower ''etag'' = ''etag''"
  by code_simp

lemma lower_cache_control: "map to_lower ''Cache-Control'' = ''cache-control''"
  by code_simp

lemma allow_header:
  "headers_get (response_headers method_not_allowed) ''Allow'' = Some ''GET, PUT, DELETE''"
  by (simp add: method_not_allowed_def Response_def headers_get_def headers_set_def
      lower_allow lower_content_type allow_value)

lemma status_method_not_allowed: "status method_not_allowed = 405"
  by (simp add: method_not_allowed_def status_Response)

lemma number_3600: "number_to_string 3600 = ''3600''"
  by code_simp

lemma ends_json_stream: "endsWith ''live.jsonStream'' ''.jsonStream''"
  by (simp add: endsWith_def)

section \<open>The authentication check\<close>

text \<open>
  Against C1 as stated: the credential \<open>U+00E9\<close> (one code unit, two bytes) and the
  secret \<open>ab\<close> (two code units, two bytes) have encodings of equal length. A check that
  compares encoded lengths first would encode both, find the lengths equal and call the
  byte-wise comparison. The handler compares the \<open>.length\<close> of the two strings first,
  finds 1 and 2, and stops: it encodes nothing and compares no bytes.
\<close>

theorem authenticate_not_by_encoded_length_first:
  "authenticate_by_encoded_length [0xE9] [0x61, 0x62] =
     Inr (False, [Encode, Encode, CompareByteLength, CallTimingSafeEqual]) \<and>
   authenticate [0xE9] [0x61, 0x62] = Inr (False, [CompareLength])"
  by (simp add: authenticate_by_encoded_length_def authenticate_def timingSafeEqual_def
      utf8_2_def utf8_1_def)

text \<open>
  C1, amended: the check first compares the lengths of the two strings in code units;
  if they differ, it stops with nothing encoded and no bytes compared. If they are equal
  it encodes both strings and compares the encoded byte lengths; if those differ, it
  stops without the byte-wise comparison. Only when both pairs of lengths are equal is
  the byte-wise comparison performed. The check never throws, and in all three cases
  its result is whether the two encodings are the same bytes: authentication fails
  whenever one of the length comparisons fails.
\<close>

theorem authenticate_steps:
  "authenticate credential secret =
     Inr (encode credential = encode secret,
          if length credential \<noteq> length secret then [CompareLength]
          else if length (encode credential) \<noteq> length (encode secret)
            then [CompareLength, Encode, Encode, CompareByteLength]
          else [CompareLength, Encode, Encode, CompareByteLength, CallTimingSafeEqual])"
  using encode_determines_length [of credential secret]
  by (auto simp: authenticate_def timingSafeEqual_def Let_def)

section \<open>A missing secret\<close>

text \<open>
  C2: when \<open>AUTH_KEY_SECRET\<close> is absent from the configuration, no request is treated as
  authenticated. Every request either leaves the handler with the \<open>TypeError\<close> of line 38
  or, its path being outside \<open>/static/\<close>, is answered 400; in both cases the store is not
  called and keeps its state, so no PUT and no DELETE succeeds.
\<close>

theorem missing_secret_fails_closed:
  assumes "AUTH_KEY_SECRET e = None"
  shows "case fetch r e of
           Inl err \<Rightarrow> err = TypeError
         | Inr out \<Rightarrow> status (returned out) = 400 \<and> store out = LIVETIMING_BUCKET e
                      \<and> calls out = []"
  using assms by (simp add: fetch_def Let_def no_call_def Response_def)

theorem missing_secret_fails_closed_witness:
  "AUTH_KEY_SECRET (sample_env\<lparr>AUTH_KEY_SECRET := None\<rparr>) = None \<and>
   fetch (sample_request ''PUT'' ''/static/a.json'' (Some [0x61, 0x62]))
     (sample_env\<lparr>AUTH_KEY_SECRET := None\<rparr>) = Inl TypeError"
  using missing_secret_fails_closed
    [of "sample_env\<lparr>AUTH_KEY_SECRET := None\<rparr>"
        "sample_request ''PUT'' ''/static/a.json'' (Some [0x61, 0x62])"]
  by (simp add: sample_env_def sample_request_def fetch_def startsWith_def)

section \<open>Authorization\<close>

text \<open>
  C3: a PUT or DELETE request under \<open>/static/\<close> whose credential (the empty string when
  the header is absent) does not authenticate against the configured secret is answered
  401 \<open>Unauthorized\<close>, and the store is not called. This holds for every configured
  secret, the non-empty ones in particular; by \<open>isAuthenticated_encode\<close> the credentials
  concerned are exactly those whose encoding differs from the secret's. A GET request is
  never answered 401, whatever its credential and the configuration.
\<close>

theorem unauthenticated_write_unauthorized:
  "(startsWith (pathname r) ''/static/'' \<and> (http_method r = ''PUT'' \<or> http_method r = ''DELETE'') \<and>
    AUTH_KEY_SECRET e = Some secret \<and> \<not> isAuthenticated (auth_token r) secret
    \<longrightarrow> (\<exists>out. fetch r e = Inr out \<and> status (returned out) = 401 \<and>
           response_body (returned out) = Text ''Unauthorized'' \<and>
           store out = LIVETIMING_BUCKET e \<and> calls out = [])) \<and>
   (http_method r' = ''GET'' \<longrightarrow> (\<forall>out. fetch r' e' = Inr out \<longrightarrow> status (returned out) \<noteq> 401))"
proof (intro conjI impI allI)
  assume h: "startsWith (pathname r) ''/static/'' \<and> (http_method r = ''PUT'' \<or> http_method r = ''DELETE'') \<and>
    AUTH_KEY_SECRET e = Some secret \<and> \<not> isAuthenticated (auth_token r) secret"
  then have "fetch r e = Inr (no_call e (Response (Text ''Unauthorized'') 401 Map.empty))"
    using fetch_configured [of r e secret]
    by (auto simp: supportedMethods_def authenticatedMethods_def)
  then show "\<exists>out. fetch r e = Inr out \<and> status (returned out) = 401 \<and>
           response_body (returned out) = Text ''Unauthorized'' \<and>
           store out = LIVETIMING_BUCKET e \<and> calls out = []"
    by (simp add: no_call_def status_Response body_Response)
next
  fix out
  assume g: "http_method r' = ''GET''" and f: "fetch r' e' = Inr out"
  show "status (returned out) \<noteq> 401"
  proof (cases "startsWith (pathname r') ''/static/''")
    case False
    with f show ?thesis
      by (auto simp: fetch_def no_call_def status_Response)
  next
    case True
    show ?thesis
    proof (cases "AUTH_KEY_SECRET e'")
      case None
      with True f show ?thesis by (simp add: fetch_def Let_def)
    next
      case (Some secret)
      with True g f have "out = handle_get e' (slice (pathname r') 8)"
        using fetch_configured [of r' e' secret]
        by (simp add: supportedMethods_def authenticatedMethods_def)
      then show ?thesis
        by (simp add: handle_get_def status_Response split: option.splits)
    qed
  qed
qed

theorem unauthenticated_write_unauthorized_witness:
  "startsWith (pathname (sample_request ''PUT'' ''/static/a.json'' (Some [0x61, 0x63]))) ''/static/'' \<and>
   http_method (sample_request ''PUT'' ''/static/a.json'' (Some [0x61, 0x63])) = ''PUT'' \<and>
   AUTH_KEY_SECRET sample_env = Some [0x61, 0x62] \<and>
   \<not> isAuthenticated (auth_token (sample_request ''PUT'' ''/static/a.json'' (Some [0x61, 0x63]))) [0x61, 0x62] \<and>
   (\<exists>out. fetch (sample_request ''PUT'' ''/static/a.json'' (Some [0x61, 0x63])) sample_env = Inr out \<and>
      status (returned out) = 401 \<and> response_body (returned out) = Text ''Unauthorized'' \<and>
      store out = LIVETIMING_BUCKET sample_env \<and> calls out = []) \<and>
   http_method (sample_request ''GET'' ''/static/'' None) = ''GET'' \<and>
   fetch (sample_request ''GET'' ''/static/'' None) sample_env =
     Inr (handle_get sample_env []) \<and>
   status (returned (handle_get sample_env [])) \<noteq> 401"
proof -
  let ?w = "sample_request ''PUT'' ''/static/a.json'' (Some [0x61, 0x63])"
  let ?g = "sample_request ''GET'' ''/static/'' None"
  have p: "startsWith (pathname ?w) ''/static/''"
    by (simp add: sample_request_def startsWith_def)
  have m: "http_method ?w = ''PUT''"
    by (simp add: sample_request_def)
  have s: "AUTH_KEY_SECRET sample_env = Some [0x61, 0x62]"
    by (simp add: sample_env_def)
  have a: "\<not> isAuthenticated (auth_token ?w) [0x61, 0x62]"
    by (simp add: sample_token isAuthenticated_iff utf8_1_def)
  have g: "http_method ?g = ''GET''"
    by (simp add: sample_request_def)
  have f: "fetch ?g sample_env = Inr (handle_get sample_env [])"
    using fetch_configured [of ?g sample_env "[0x61, 0x62]"] s
    by (simp add: sample_request_def startsWith_def slice_def supportedMethods_def
        authenticatedMethods_def)
  from unauthenticated_write_unauthorized [of ?w sample_env "[0x61, 0x62]" ?g sample_env]
  show ?thesis using p m s a g f by simp
qed

text \<open>
  C5: when the configured secret is the empty string, a request without the
  authentication header has the empty credential and is authenticated; a PUT without
  credential then writes to the store and is answered 200, and a DELETE without
  credential deletes from the store and is answered 200.
\<close>

theorem empty_secret_accepts_missing_header:
  assumes "AUTH_KEY_SECRET e = Some []"
    and "headers_get (headers r) PRESHARED_AUTH_HEADER_KEY = None"
    and "startsWith (pathname r) ''/static/''"
  shows "isAuthenticated (auth_token r) [] \<and>
    (http_method r = ''PUT'' \<longrightarrow>
      (\<exists>out. fetch r e = Inr out \<and> status (returned out) = 200 \<and>
         response_body (returned out) = Text (''Put '' @ slice (pathname r) 8 @ '' successfully!'') \<and>
         calls out = [Put (slice (pathname r) 8) (body r) (put_metadata (slice (pathname r) 8))] \<and>
         store out = bucket_put (LIVETIMING_BUCKET e) (slice (pathname r) 8) (body r)
                       (put_metadata (slice (pathname r) 8)))) \<and>
    (http_method r = ''DELETE'' \<longrightarrow>
      (\<exists>out. fetch r e = Inr out \<and> status (returned out) = 200 \<and>
         response_body (returned out) = Text ''Deleted!'' \<and>
         calls out = [Delete (slice (pathname r) 8)] \<and>
         store out = bucket_delete (LIVETIMING_BUCKET e) (slice (pathname r) 8)))"
proof -
  have t: "auth_token r = []"
    using assms(2) by (rule auth_token_absent)
  have a: "isAuthenticated (auth_token r) []"
    by (simp add: t isAuthenticated_iff)
  have f: "http_method r = ''PUT'' \<Longrightarrow> fetch r e = Inr (handle_put r e (slice (pathname r) 8))"
    using fetch_configured [OF assms(3) assms(1)] a
    by (simp add: supportedMethods_def authenticatedMethods_def)
  have d: "http_method r = ''DELETE'' \<Longrightarrow> fetch r e = Inr (handle_delete e (slice (pathname r) 8))"
    using fetch_configured [OF assms(3) assms(1)] a
    by (simp add: supportedMethods_def authenticatedMethods_def)
  show ?thesis
    using a f d by (simp add: handle_put_def handle_delete_def status_Response body_Response)
qed

theorem empty_secret_accepts_missing_header_witness:
  "AUTH_KEY_SECRET (sample_env\<lparr>AUTH_KEY_SECRET := Some []\<rparr>) = Some [] \<and>
   headers_get (headers (sample_request ''DELETE'' ''/static/a.json'' None))
     PRESHARED_AUTH_HEADER_KEY = None \<and>
   startsWith (pathname (sample_request ''DELETE'' ''/static/a.json'' None)) ''/static/'' \<and>
   http_method (sample_request ''DELETE'' ''/static/a.json'' None) = ''DELETE'' \<and>
   (\<exists>out. fetch (sample_request ''DELETE'' ''/static/a.json'' None)
            (sample_env\<lparr>AUTH_KEY_SECRET := Some []\<rparr>) = Inr out \<and>
      status (returned out) = 200 \<and> response_body (returned out) = Text ''Deleted!'' \<and>
      calls out = [Delete ''a.json''])"
proof -
  let ?e = "sample_env\<lparr>AUTH_KEY_SECRET := Some []\<rparr>"
  let ?r = "sample_request ''DELETE'' ''/static/a.json'' None"
  have s: "AUTH_KEY_SECRET ?e = Some []" by simp
  have h: "headers_get (headers ?r) PRESHARED_AUTH_HEADER_KEY = None"
    by (simp add: sample_request_def headers_get_def)
  have p: "startsWith (pathname ?r) ''/static/''"
    by (simp add: sample_request_def startsWith_def)
  have m: "http_method ?r = ''DELETE''" by (simp add: sample_request_def)
  have k: "slice (pathname ?r) 8 = ''a.json''"
    by (simp add: sample_request_def slice_def)
  from empty_secret_accepts_missing_header [OF s h p]
  show ?thesis using s h p m k by auto
qed

section \<open>Unsupported methods\<close>

text \<open>
  C9: a request under \<open>/static/\<close> whose method is none of GET, PUT and DELETE is
  answered 405 with the header \<open>Allow: GET, PUT, DELETE\<close>, whatever credential it
  presents, and the store is not called. The secret is configured (C2 covers the
  configuration without one).
\<close>

theorem unsupported_method_405:
  assumes "startsWith (pathname r) ''/static/''"
    and "AUTH_KEY_SECRET e = Some secret"
    and "http_method r \<noteq> ''GET''" and "http_method r \<noteq> ''PUT''"
    and "http_method r \<noteq> ''DELETE''"
  shows "\<exists>out. fetch r e = Inr out \<and> status (returned out) = 405 \<and>
           headers_get (response_headers (returned out)) ''Allow'' = Some ''GET, PUT, DELETE'' \<and>
           store out = LIVETIMING_BUCKET e \<and> calls out = []"
proof -
  have "fetch r e = Inr (no_call e method_not_allowed)"
    using fetch_configured [OF assms(1) assms(2)] assms(3) assms(4) assms(5)
    by (simp add: supportedMethods_def)
  then show ?thesis
    by (simp add: no_call_def allow_header status_method_not_allowed)
qed

theorem unsupported_method_405_witness:
  "startsWith (pathname (sample_request ''POST'' ''/static/a.json'' (Some [0x61, 0x62]))) ''/static/'' \<and>
   AUTH_KEY_SECRET sample_env = Some [0x61, 0x62] \<and>
   http_method (sample_request ''POST'' ''/static/a.json'' (Some [0x61, 0x62])) \<noteq> ''GET'' \<and>
   http_method (sample_request ''POST'' ''/static/a.json'' (Some [0x61, 0x62])) \<noteq> ''PUT'' \<and>
   http_method (sample_request ''POST'' ''/static/a.json'' (Some [0x61, 0x62])) \<noteq> ''DELETE'' \<and>
   (\<exists>out. fetch (sample_request ''POST'' ''/static/a.json'' (Some [0x61, 0x62])) sample_env = Inr out \<and>
      status (returned out) = 405 \<and>
      headers_get (response_headers (returned out)) ''Allow'' = Some ''GET, PUT, DELETE'' \<and>
      store out = LIVETIMING_BUCKET sample_env \<and> calls out = [])"
proof -
  let ?r = "sample_request ''POST'' ''/static/a.json'' (Some [0x61, 0x62])"
  have p: "startsWith (pathname ?r) ''/static/''"
    by (simp add: sample_request_def startsWith_def)
  have s: "AUTH_KEY_SECRET sample_env = Some [0x61, 0x62]"
    by (simp add: sample_env_def)
  have m: "http_method ?r \<noteq> ''GET''" "http_method ?r \<noteq> ''PUT''" "http_method ?r \<noteq> ''DELETE''"
    by (simp_all add: sample_request_def)
  from unsupported_method_405 [OF p s m] show ?thesis
    using p s m by blast
qed

section \<open>Writing, reading and deleting\<close>

text \<open>
  C7: an authenticated PUT under \<open>/static/\<close> calls \<open>put\<close> on the store once, with the
  key, the request body and a content type taken from the key's suffix:
  \<open>application/octet-stream\<close> for \<open>.jsonStream\<close>, \<open>application/json\<close> for \<open>.json\<close>, the
  empty string otherwise. The answer is 200 with the body \<open>Put <key> successfully!\<close>.
  After the call the store holds the new object at the key, whatever it held there
  before, and is unchanged elsewhere.
\<close>

theorem put_stores_content_type:
  assumes "startsWith (pathname r) ''/static/''" and "http_method r = ''PUT''"
    and "AUTH_KEY_SECRET e = Some secret" and "isAuthenticated (auth_token r) secret"
    and "key = slice (pathname r) 8"
  shows "\<exists>out meta. fetch r e = Inr out \<and>
           status (returned out) = 200 \<and>
           response_body (returned out) = Text (''Put '' @ key @ '' successfully!'') \<and>
           calls out = [Put key (body r) meta] \<and>
           contentType meta =
             Some (if endsWith key ''.jsonStream'' then ''application/octet-stream''
                   else if endsWith key ''.json'' then ''application/json''
                   else []) \<and>
           objects (store out) =
             (objects (LIVETIMING_BUCKET e))(key \<mapsto>
               \<lparr>object_body = body r, httpMetadata = meta,
                httpEtag = etag_of (LIVETIMING_BUCKET e) (body r)\<rparr>)"
proof -
  have f: "fetch r e = Inr (handle_put r e key)"
    using fetch_put_authenticated [OF assms(1) assms(3) assms(2) assms(4)] assms(5) by simp
  have c: "contentType (put_metadata key) =
      Some (if endsWith key ''.jsonStream'' then ''application/octet-stream''
            else if endsWith key ''.json'' then ''application/json'' else [])"
    by (simp add: put_metadata_def content_type_value_def)
  have o: "objects (store (handle_put r e key)) =
      (objects (LIVETIMING_BUCKET e))(key \<mapsto>
         \<lparr>object_body = body r, httpMetadata = put_metadata key,
          httpEtag = etag_of (LIVETIMING_BUCKET e) (body r)\<rparr>)"
    by (simp add: handle_put_def bucket_put_def)
  have r: "status (returned (handle_put r e key)) = 200 \<and>
      response_body (returned (handle_put r e key)) = Text (''Put '' @ key @ '' successfully!'') \<and>
      calls (handle_put r e key) = [Put key (body r) (put_metadata key)]"
    by (simp add: handle_put_def status_Response body_Response)
  show ?thesis
    using f c o r by blast
qed

theorem put_stores_content_type_witness:
  "startsWith (pathname (sample_request ''PUT'' ''/static/live.jsonStream'' (Some [0x61, 0x62]))) ''/static/'' \<and>
   http_method (sample_request ''PUT'' ''/static/live.jsonStream'' (Some [0x61, 0x62])) = ''PUT'' \<and>
   AUTH_KEY_SECRET (sample_env\<lparr>LIVETIMING_BUCKET := stocked_bucket\<rparr>) = Some [0x61, 0x62] \<and>
   isAuthenticated (auth_token (sample_request ''PUT'' ''/static/live.jsonStream'' (Some [0x61, 0x62])))
     [0x61, 0x62] \<and>
   ''live.jsonStream'' = slice (pathname (sample_request ''PUT'' ''/static/live.jsonStream'' (Some [0x61, 0x62]))) 8 \<and>
   (\<exists>out meta.
      fetch (sample_request ''PUT'' ''/static/live.jsonStream'' (Some [0x61, 0x62]))
        (sample_env\<lparr>LIVETIMING_BUCKET := stocked_bucket\<rparr>) = Inr out \<and>
      status (returned out) = 200 \<and>
      response_body (returned out) = Text ''Put live.jsonStream successfully!'' \<and>
      calls out = [Put ''live.jsonStream'' [0x7B, 0x7D] meta] \<and>
      contentType meta = Some ''application/octet-stream'')"
proof -
  let ?r = "sample_request ''PUT'' ''/static/live.jsonStream'' (Some [0x61, 0x62])"
  let ?e = "sample_env\<lparr>LIVETIMING_BUCKET := stocked_bucket\<rparr>"
  have p: "startsWith (pathname ?r) ''/static/''"
    by (simp add: sample_request_def startsWith_def)
  have m: "http_method ?r = ''PUT''" by (simp add: sample_request_def)
  have s: "AUTH_KEY_SECRET ?e = Some [0x61, 0x62]" by (simp add: sample_env_def)
  have a: "isAuthenticated (auth_token ?r) [0x61, 0x62]"
    by (simp add: sample_token isAuthenticated_iff)
  have k: "''live.jsonStream'' = slice (pathname ?r) 8"
    by (simp add: sample_request_def slice_def)
  have b: "body ?r = [0x7B, 0x7D]" by (simp add: sample_request_def)
  from put_stores_content_type [OF p m s a k]
  have "\<exists>out meta. fetch ?r ?e = Inr out \<and> status (returned out) = 200 \<and>
      response_body (returned out) = Text ''Put live.jsonStream successfully!'' \<and>
      calls out = [Put ''live.jsonStream'' [0x7B, 0x7D] meta] \<and>
      contentType meta = Some ''application/octet-stream''"
    unfolding b using ends_json_stream by auto
  then show ?thesis
    using p m s a k by blast
qed

text \<open>
  C10: a GET of \<open>/static/\<close> (the empty key) is answered 200 with the body
  \<open>Status OK\<close>; the handler makes no call on the store (no get, no put, no delete) and
  the store keeps its state. The secret is configured (C2 covers the configuration
  without one).
\<close>

theorem health_check_without_store:
  assumes "pathname r = ''/static/''" and "http_method r = ''GET''"
    and "AUTH_KEY_SECRET e = Some secret"
  shows "\<exists>out. fetch r e = Inr out \<and> status (returned out) = 200 \<and>
           response_body (returned out) = Text ''Status OK'' \<and>
           calls out = [] \<and> store out = LIVETIMING_BUCKET e"
proof -
  have k: "startsWith (pathname r) ''/static/''" "slice (pathname r) 8 = []"
    using assms(1) by (simp_all add: startsWith_def slice_def)
  have "fetch r e = Inr (handle_get e [])"
    using fetch_get [OF k(1) assms(3) assms(2)] k(2) by simp
  then show ?thesis
    by (simp add: handle_get_def status_Response body_Response)
qed

theorem health_check_without_store_witness:
  "pathname (sample_request ''GET'' ''/static/'' None) = ''/static/'' \<and>
   http_method (sample_request ''GET'' ''/static/'' None) = ''GET'' \<and>
   AUTH_KEY_SECRET (sample_env\<lparr>LIVETIMING_BUCKET := stocked_bucket\<rparr>) = Some [0x61, 0x62] \<and>
   (\<exists>out. fetch (sample_request ''GET'' ''/static/'' None)
            (sample_env\<lparr>LIVETIMING_BUCKET := stocked_bucket\<rparr>) = Inr out \<and>
      status (returned out) = 200 \<and> response_body (returned out) = Text ''Status OK'' \<and>
      calls out = [] \<and> store out = stocked_bucket)"
proof -
  let ?r = "sample_request ''GET'' ''/static/'' None"
  let ?e = "sample_env\<lparr>LIVETIMING_BUCKET := stocked_bucket\<rparr>"
  have p: "pathname ?r = ''/static/''" by (simp add: sample_request_def)
  have m: "http_method ?r = ''GET''" by (simp add: sample_request_def)
  have s: "AUTH_KEY_SECRET ?e = Some [0x61, 0x62]" by (simp add: sample_env_def)
  from health_check_without_store [OF p m s] show ?thesis
    using p m s by simp
qed

text \<open>
  C6: for a non-empty key and the correct credential, the requests PUT, GET, DELETE, GET
  of \<open>/static/<key>\<close>, served one after the other, are answered 200, 200 with the bytes
  that were put as body, 200 and 404, in this order. The two GET requests may carry any
  credential or none.
\<close>

theorem put_get_delete_get:
  assumes secret: "AUTH_KEY_SECRET e = Some secret"
    and key: "key \<noteq> []"
    and put: "pathname p = ''/static/'' @ key" "http_method p = ''PUT''"
             "headers_get (headers p) PRESHARED_AUTH_HEADER_KEY = Some secret"
    and get1: "pathname g1 = ''/static/'' @ key" "http_method g1 = ''GET''"
    and del: "pathname d = ''/static/'' @ key" "http_method d = ''DELETE''"
             "headers_get (headers d) PRESHARED_AUTH_HEADER_KEY = Some secret"
    and get2: "pathname g2 = ''/static/'' @ key" "http_method g2 = ''GET''"
  shows "\<exists>r1 r2 r3 r4. serve e [p, g1, d, g2] = Inr [r1, r2, r3, r4] \<and>
           status r1 = 200 \<and>
           status r2 = 200 \<and> response_body r2 = Stream (body p) \<and>
           status r3 = 200 \<and>
           status r4 = 404"
proof -
  let ?b0 = "LIVETIMING_BUCKET e"
  let ?b1 = "bucket_put ?b0 key (body p) (put_metadata key)"
  let ?e1 = "e\<lparr>LIVETIMING_BUCKET := ?b1\<rparr>"
  let ?b3 = "bucket_delete ?b1 key"
  let ?e3 = "e\<lparr>LIVETIMING_BUCKET := ?b3\<rparr>"
  have f1: "fetch p e = Inr (handle_put p e key)"
    using fetch_put_authenticated [of p e secret] secret put path_key [of p key]
    by (simp add: auth_token_present isAuthenticated_same)
  have s1: "store (handle_put p e key) = ?b1"
    by (simp add: handle_put_def)
  have f2: "fetch g1 ?e1 = Inr (handle_get ?e1 key)"
    using fetch_get [of g1 ?e1 secret] secret get1 path_key [of g1 key]
    by simp
  have s2: "store (handle_get ?e1 key) = ?b1"
    by (simp add: handle_get_def split: option.splits)
  have f3: "fetch d ?e1 = Inr (handle_delete ?e1 key)"
    using fetch_delete_authenticated [of d ?e1 secret] secret del path_key [of d key]
    by (simp add: auth_token_present isAuthenticated_same)
  have s3: "store (handle_delete ?e1 key) = ?b3"
    by (simp add: handle_delete_def)
  have f4: "fetch g2 ?e3 = Inr (handle_get ?e3 key)"
    using fetch_get [of g2 ?e3 secret] secret get2 path_key [of g2 key]
    by simp
  have run: "serve e [p, g1, d, g2] =
      Inr [returned (handle_put p e key), returned (handle_get ?e1 key),
           returned (handle_delete ?e1 key), returned (handle_get ?e3 key)]"
    by (simp add: f1 s1 f2 s2 f3 s3 f4)
  have r1: "status (returned (handle_put p e key)) = 200"
    by (simp add: handle_put_def status_Response)
  have r2: "status (returned (handle_get ?e1 key)) = 200 \<and>
            response_body (returned (handle_get ?e1 key)) = Stream (body p)"
    using key by (simp add: handle_get_def bucket_get_def bucket_put_def status_Response
        body_Response)
  have r3: "status (returned (handle_delete ?e1 key)) = 200"
    by (simp add: handle_delete_def status_Response)
  have r4: "status (returned (handle_get ?e3 key)) = 404"
    using key by (simp add: handle_get_def bucket_get_def bucket_delete_def status_Response)
  show ?thesis
    using run r1 r2 r3 r4 by simp
qed

theorem put_get_delete_get_witness:
  "AUTH_KEY_SECRET sample_env = Some [0x61, 0x62] \<and> ''a.json'' \<noteq> [] \<and>
   pathname (sample_request ''PUT'' ''/static/a.json'' (Some [0x61, 0x62])) = ''/static/'' @ ''a.json'' \<and>
   http_method (sample_request ''PUT'' ''/static/a.json'' (Some [0x61, 0x62])) = ''PUT'' \<and>
   headers_get (headers (sample_request ''PUT'' ''/static/a.json'' (Some [0x61, 0x62])))
     PRESHARED_AUTH_HEADER_KEY = Some [0x61, 0x62] \<and>
   pathname (sample_request ''GET'' ''/static/a.json'' None) = ''/static/'' @ ''a.json'' \<and>
   http_method (sample_request ''GET'' ''/static/a.json'' None) = ''GET'' \<and>
   pathname (sample_request ''DELETE'' ''/static/a.json'' (Some [0x61, 0x62])) = ''/static/'' @ ''a.json'' \<and>
   http_method (sample_request ''DELETE'' ''/static/a.json'' (Some [0x61, 0x62])) = ''DELETE'' \<and>
   headers_get (headers (sample_request ''DELETE'' ''/static/a.json'' (Some [0x61, 0x62])))
     PRESHARED_AUTH_HEADER_KEY = Some [0x61, 0x62] \<and>
   (\<exists>r1 r2 r3 r4.
      serve sample_env
        [sample_request ''PUT'' ''/static/a.json'' (Some [0x61, 0x62]),
         sample_request ''GET'' ''/static/a.json'' None,
         sample_request ''DELETE'' ''/static/a.json'' (Some [0x61, 0x62]),
         sample_request ''GET'' ''/static/a.json'' None] = Inr [r1, r2, r3, r4] \<and>
      status r1 = 200 \<and> status r2 = 200 \<and> response_body r2 = Stream [0x7B, 0x7D] \<and>
      status r3 = 200 \<and> status r4 = 404)"
proof -
  let ?p = "sample_request ''PUT'' ''/static/a.json'' (Some [0x61, 0x62])"
  let ?g = "sample_request ''GET'' ''/static/a.json'' None"
  let ?d = "sample_request ''DELETE'' ''/static/a.json'' (Some [0x61, 0x62])"
  have s: "AUTH_KEY_SECRET sample_env = Some [0x61, 0x62]"
    by (simp add: sample_env_def)
  have k: "''a.json'' \<noteq> []" by simp
  have p: "pathname ?p = ''/static/'' @ ''a.json''" "http_method ?p = ''PUT''"
    "headers_get (headers ?p) PRESHARED_AUTH_HEADER_KEY = Some [0x61, 0x62]"
    by (simp_all add: sample_request_def headers_get_def auth_header_name)
  have g: "pathname ?g = ''/static/'' @ ''a.json''" "http_method ?g = ''GET''"
    by (simp_all add: sample_request_def)
  have d: "pathname ?d = ''/static/'' @ ''a.json''" "http_method ?d = ''DELETE''"
    "headers_get (headers ?d) PRESHARED_AUTH_HEADER_KEY = Some [0x61, 0x62]"
    by (simp_all add: sample_request_def headers_get_def auth_header_name)
  have b: "body ?p = [0x7B, 0x7D]" by (simp add: sample_request_def)
  from put_get_delete_get [OF s k p g d g] b
  have "\<exists>r1 r2 r3 r4. serve sample_env [?p, ?g, ?d, ?g] = Inr [r1, r2, r3, r4] \<and>
      status r1 = 200 \<and> status r2 = 200 \<and> response_body r2 = Stream [0x7B, 0x7D] \<and>
      status r3 = 200 \<and> status r4 = 404"
    by simp
  then show ?thesis
    using s k p g d by blast
qed

section \<open>The response to a GET of a stored object\<close>

text \<open>
  A GET of a non-empty key whose object is in the store is answered 200 with the
  object's bytes; the headers are those of the object's HTTP metadata, then \<open>etag\<close>,
  then \<open>Cache-Control\<close> with the value computed at line 24.
\<close>

lemma get_cache_control:
  "headers_get (object_headers object n) ''Cache-Control'' =
     Some (''public, max-age='' @ number_to_string n)"
  by (simp add: object_headers_def headers_get_def headers_set_def)

lemma get_etag:
  "headers_get (object_headers object n) ''etag'' = Some (httpEtag object)"
  by (simp add: object_headers_def headers_get_def headers_set_def lower_etag
      lower_cache_control)

lemma get_content_type:
  "headers_get (object_headers object n) ''content-type'' = contentType (httpMetadata object)"
  by (simp add: object_headers_def headers_get_def headers_set_def lower_etag
      lower_cache_control lower_content_type writeHttpMetadata_def write_field_def Let_def
      split: option.splits)

lemma get_found:
  assumes "startsWith (pathname r) ''/static/''" and "http_method r = ''GET''"
    and "AUTH_KEY_SECRET e = Some secret" and "slice (pathname r) 8 \<noteq> []"
    and "bucket_get (LIVETIMING_BUCKET e) (slice (pathname r) 8) = Some object"
  shows "fetch r e =
     Inr \<lparr>returned = \<lparr>status = 200,
                        response_headers = object_headers object (cache_max_age e),
                        response_body = Stream (object_body object)\<rparr>,
          store = LIVETIMING_BUCKET e,
          calls = [Get (slice (pathname r) 8)]\<rparr>"
  using fetch_get [OF assms(1) assms(3) assms(2)] assms(4) assms(5)
  by (simp add: handle_get_def Response_def)

text \<open>
  C8 at the configuration \<open>MAX_CACHE_AGE = 0\<close>: the object stored at \<open>a.json\<close> is served
  with \<open>Cache-Control: public, max-age=3600\<close>, not with the configured \<open>max-age=0\<close>,
  because \<open>0 || 3600\<close> is \<open>3600\<close>.
\<close>

theorem zero_max_cache_age_served_as_3600:
  "fetch (sample_request ''GET'' ''/static/a.json'' None)
     (sample_env\<lparr>MAX_CACHE_AGE := Some 0, LIVETIMING_BUCKET := stocked_bucket\<rparr>) =
     Inr \<lparr>returned = \<lparr>status = 200,
                        response_headers = object_headers sample_object 3600,
                        response_body = Stream [0x7B, 0x7D]\<rparr>,
          store = stocked_bucket,
          calls = [Get ''a.json'']\<rparr> \<and>
   headers_get (object_headers sample_object 3600) ''Cache-Control'' =
     Some ''public, max-age=3600''"
proof -
  let ?r = "sample_request ''GET'' ''/static/a.json'' None"
  let ?e = "sample_env\<lparr>MAX_CACHE_AGE := Some 0, LIVETIMING_BUCKET := stocked_bucket\<rparr>"
  have p: "startsWith (pathname ?r) ''/static/''"
    by (simp add: sample_request_def startsWith_def)
  have m: "http_method ?r = ''GET''" by (simp add: sample_request_def)
  have s: "AUTH_KEY_SECRET ?e = Some [0x61, 0x62]" by (simp add: sample_env_def)
  have k: "slice (pathname ?r) 8 = ''a.json''"
    by (simp add: sample_request_def slice_def)
  have o: "bucket_get (LIVETIMING_BUCKET ?e) ''a.json'' = Some sample_object"
    by (simp add: bucket_get_def stocked_bucket_def)
  have c: "cache_max_age ?e = 3600" by (simp add: cache_max_age_def)
  have b: "object_body sample_object = [0x7B, 0x7D]" by (simp add: sample_object_def)
  have "fetch ?r ?e = Inr \<lparr>returned = \<lparr>status = 200,
                        response_headers = object_headers sample_object 3600,
                        response_body = Stream [0x7B, 0x7D]\<rparr>,
          store = stocked_bucket, calls = [Get ''a.json'']\<rparr>"
    using get_found [OF p m s, of sample_object] k o c b by simp
  then show ?thesis
    by (simp add: get_cache_control number_3600)
qed

end
